theory Spec2Isabelle
  imports Main "HOL-Library.Word"
begin

section \<open>Enumeration values, failures and text\<close>

text \<open>
  The repository holds two variants of one header: \<open>src/enum.h\<close>, which the example
  program includes, with \<open>enum_to_string\<close> and \<open>enum_from_string\<close>, and
  \<open>src/unnamed/part_000\<close>, with \<open>enum_strings::to_string\<close> and
  \<open>enum_strings::from_string\<close>. Both are embedded here, function by function.

  An enumeration type \<open>E\<close> is used by the headers only through its underlying integer
  type \<open>std::underlying_type_t<E>\<close>. A value of \<open>E\<close> is modelled as a word of that
  type's width \<open>'a\<close> (at most 64 bits in C++), together with a flag \<open>is_signed\<close>
  telling whether the underlying type is signed. With a fixed underlying type (every
  scoped enumeration has one, \<open>int\<close> by default) every value of the underlying type is a
  value of \<open>E\<close>, whether it is the value of an enumerator or not
  (\<open>static_cast<E>(k)\<close>).

  The underlying type ranges over the integer types other than \<open>bool\<close>: a cast to
  such a type keeps the low bits of its argument, as \<open>word_of_nat\<close> does, while a cast
  to \<open>bool\<close> tests its argument against zero. Enumerations over \<open>bool\<close> are not
  covered by the definitions below.
\<close>

datatype failure =
    invalid_argument string \<comment> \<open>\<open>throw std::invalid_argument(message)\<close>\<close>
  | undefined_behaviour \<comment> \<open>\<open>operator[]\<close> outside the sequence: no behaviour is defined\<close>

text \<open>\<open>static_cast<base_type>(e)\<close> read as a mathematical integer.\<close>

definition underlying_value :: "bool \<Rightarrow> 'a::len word \<Rightarrow> int" where
  "underlying_value is_signed w = (if is_signed then sint w else uint w)"

text \<open>
  Whether the number \<open>n\<close> is a value of the underlying type: below \<open>2 ^ (w - 1)\<close> for a
  signed type of \<open>w\<close> bits, below \<open>2 ^ w\<close> for an unsigned one.
\<close>

definition representable :: "bool \<Rightarrow> 'a::len itself \<Rightarrow> nat \<Rightarrow> bool" where
  "representable is_signed T n = (n < 2 ^ (if is_signed then LENGTH('a) - 1 else LENGTH('a)))"

text \<open>
  \<open>operator[]\<close> of \<open>std::array\<close> and \<open>std::vector\<close> takes a \<open>size_type\<close> and checks
  nothing. The index arrives as a value of the underlying type; a negative one converts to
  a \<open>size_type\<close> of at least \<open>2 ^ 63\<close>, beyond every sequence the address space holds,
  so exactly the indices in \<open>[0, length)\<close> denote an element.
\<close>

definition subscript :: "string list \<Rightarrow> int \<Rightarrow> failure + string" where
  "subscript string_list index =
     (if 0 \<le> index \<and> index < int (length string_list)
      then Inr (string_list ! nat index)
      else Inl undefined_behaviour)"

text \<open>\<open>std::to_string\<close> on integers: decimal digits, a minus sign for negatives.\<close>

definition digit :: "nat \<Rightarrow> char" where
  "digit d = ''0123456789'' ! d"

fun digits :: "nat \<Rightarrow> string" where
  "digits n = (if n < 10 then [digit n] else digits (n div 10) @ [digit (n mod 10)])"

declare digits.simps [simp del]

definition std_to_string :: "int \<Rightarrow> string" where
  "std_to_string i = (if i < 0 then CHR ''-'' # digits (nat (- i)) else digits (nat i))"

section \<open>The header \<open>enum.h\<close>\<close>

subsection \<open>The table builder\<close>

text \<open>
  \<open>src/enum.h\<close>, lines 31 to 53.
  \<open>to_array_impl(a, std::index_sequence<I...>)\<close> returns \<open>{{a[I]...}}\<close>, and
  \<open>to_array(a)\<close> calls it with \<open>std::make_index_sequence<N>\<close>, the indices \<open>0 .. N-1\<close>.
  The overload for lvalues copies each element and the one for rvalues moves it; both
  give the same values.

  \<open>to_array_impl\<close> is only called with the indices below \<open>N\<close>.

  The parameter is a reference to an array \<open>T[N]\<close>. C++ has no array of zero elements:
  from the empty list \<open>{}\<close> the bound \<open>N\<close> is not deduced and the call does not compile.
  The model returns \<open>None\<close> for that call.
\<close>

definition make_index_sequence :: "nat \<Rightarrow> nat list" where
  "make_index_sequence N = [0..<N]"

definition to_array_impl :: "'a list \<Rightarrow> nat list \<Rightarrow> 'a list" where
  "to_array_impl a I = map (\<lambda>i. a ! i) I"

definition to_array :: "'a list \<Rightarrow> 'a list option" where
  "to_array a =
     (if length a = 0 then None
      else Some (to_array_impl a (make_index_sequence (length a))))"

subsection \<open>The table of a type\<close>

text \<open>
  \<open>src/enum.h\<close>, lines 55 to 65 and 79 to 86.
  The primary template \<open>EnumMetaInfo<T>::Info()\<close>, used for every type without an
  association, returns \<open>std::array<std::string, 0>{}\<close>. The specialisation written by
  \<open>ENUM_STRINGS(E, ...)\<close> returns \<open>to_array<std::string>({__VA_ARGS__})\<close>.
\<close>

definition EnumMetaInfo_Info :: "string list" where
  "EnumMetaInfo_Info = []"

definition ENUM_STRINGS_Info :: "string list \<Rightarrow> string list option" where
  "ENUM_STRINGS_Info va_args = to_array va_args"

subsection \<open>The conversions\<close>

text \<open>
  \<open>enum_to_string\<close> (\<open>src/enum.h\<close>, lines 88 to 101): \<open>string_list\<close> is what \<open>EnumMetaInfo<E>::Info()\<close> returned and
  \<open>max_size\<close> its number of elements. The test compares \<open>index\<close> with
  \<open>static_cast<base_type>(max_size)\<close>, the size cut down to the underlying type, both
  read in that type. Where the test fails the function returns \<open>string_list[index]\<close>.
\<close>

definition enum_to_string :: "bool \<Rightarrow> string list \<Rightarrow> 'a::len word \<Rightarrow> failure + string" where
  "enum_to_string is_signed string_list e =
     (let index = e;
          max_size = length string_list
      in if underlying_value is_signed index \<ge> underlying_value is_signed (word_of_nat max_size :: 'a word)
         then Inr []
         else subscript string_list (underlying_value is_signed index))"

text \<open>The loop \<open>while (n < max_size && string_list[n] != s) ++n;\<close> started at \<open>n\<close>.\<close>

function scan :: "string list \<Rightarrow> string \<Rightarrow> nat \<Rightarrow> nat" where
  "scan string_list s n =
     (if n < length string_list \<and> string_list ! n \<noteq> s
      then scan string_list s (Suc n)
      else n)"
  by pat_completeness auto
termination
  by (relation "measure (\<lambda>(string_list, s, n). length string_list - n)") auto

declare scan.simps [simp del]

text \<open>
  \<open>enum_from_string\<close> (\<open>src/enum.h\<close>, lines 103 to 115): \<open>E{}\<close> is the value \<open>0\<close>, and \<open>static_cast<E>(n)\<close> cuts the
  \<open>size_t\<close> \<open>n\<close> down to the underlying type.
\<close>

definition enum_from_string :: "string list \<Rightarrow> string \<Rightarrow> 'a::len word" where
  "enum_from_string string_list s =
     (let max_size = length string_list;
          n = scan string_list s 0
      in if n = max_size then 0 else word_of_nat n)"

section \<open>The header of namespace \<open>enum_strings\<close> (\<open>src/unnamed/part_000\<close>)\<close>

text \<open>
  Lines 37 to 41: \<open>ENUM_STRINGS(E, ...)\<close> writes \<open>_get_enum_strings(E)\<close>, which holds the names in a
  function-local \<open>static stringlist ss{__VA_ARGS__}\<close>: built by the first call, returned
  by every call. The static is the only state of the header; it is \<open>None\<close> before the
  first call.
\<close>

definition get_enum_strings :: "string list \<Rightarrow> string list option \<Rightarrow> string list \<times> string list option" where
  "get_enum_strings va_args ss =
     (case ss of
        None \<Rightarrow> (va_args, Some va_args)
      | Some built \<Rightarrow> (built, Some built))"

text \<open>
  \<open>to_string\<close> (lines 61 to 74): the same test as in \<open>enum.h\<close>, against \<open>strings.size()\<close>, but the
  out-of-range branch throws. Its message prints \<open>strings.size() - 1\<close>, computed in
  \<open>size_t\<close> (64 bits).
\<close>

definition to_string ::
  "bool \<Rightarrow> string list \<Rightarrow> 'a::len word \<Rightarrow> string list option \<Rightarrow> (failure + string) \<times> string list option" where
  "to_string is_signed va_args e ss =
     (let (strings, ss') = get_enum_strings va_args ss;
          index = e
      in if underlying_value is_signed index \<ge> underlying_value is_signed (word_of_nat (length strings) :: 'a word)
         then (Inl (invalid_argument
                 (''Invalid value '' @ std_to_string (underlying_value is_signed index) @ ''. ''
                  @ ''Valid range is 0..'' @ std_to_string ((int (length strings) - 1) mod 2 ^ 64))), ss')
         else (subscript strings (underlying_value is_signed index), ss'))"

text \<open>
  \<open>from_string\<close> (lines 76 to 91): the loop of \<open>enum.h\<close>; a string that is no name throws
  \<open>"'" + s + "' is not a valid string representation of this type"\<close>.
\<close>

definition from_string ::
  "string list \<Rightarrow> string \<Rightarrow> string list option \<Rightarrow> (failure + 'a::len word) \<times> string list option" where
  "from_string va_args s ss =
     (let (strings, ss') = get_enum_strings va_args ss;
          n = scan strings s 0
      in if n = length strings
         then (Inl (invalid_argument
                 ([CHR 0x27] @ s @ CHR 0x27 # '' is not a valid string representation of this type'')), ss')
         else (Inr (word_of_nat n), ss'))"

section \<open>Stream extraction\<close>






section \<open>Round trips and example tables\<close>

text \<open>
  The expression \<open>enum_from_string<E>(enum_to_string(e))\<close> of \<open>enum.h\<close>, and
  \<open>from_string<E>(to_string(e))\<close> of \<open>part_000\<close>, where an exception of the inner call
  ends the expression.
\<close>

definition enum_round_trip :: "bool \<Rightarrow> string list \<Rightarrow> 'a::len word \<Rightarrow> failure + 'a word" where
  "enum_round_trip is_signed string_list e =
     (case enum_to_string is_signed string_list e of
        Inl f \<Rightarrow> Inl f
      | Inr s \<Rightarrow> Inr (enum_from_string string_list s))"

definition round_trip ::
  "bool \<Rightarrow> string list \<Rightarrow> 'a::len word \<Rightarrow> string list option \<Rightarrow> (failure + 'a word) \<times> string list option" where
  "round_trip is_signed va_args e ss =
     (case to_string is_signed va_args e ss of
        (Inl f, ss') \<Rightarrow> (Inl f, ss')
      | (Inr s, ss') \<Rightarrow> from_string va_args s ss')"

text \<open>
  A table of \<open>k\<close> pairwise distinct, non-empty names \<open>n\<close>, \<open>nn\<close>, \<open>nnn\<close>, ... for an
  enumeration with \<open>k\<close> enumerators of default values \<open>0 .. k-1\<close>.
\<close>

definition names_upto :: "nat \<Rightarrow> string list" where
  "names_upto k = map (\<lambda>i. replicate (Suc i) (CHR ''n'')) [0..<k]"

section \<open>Properties\<close>

subsection \<open>Casting a size to the underlying type\<close>

text \<open>
  \<open>static_cast<base_type>(n)\<close> never exceeds \<open>n\<close>, and is \<open>n\<close> when \<open>n\<close> is a value of
  the underlying type.
\<close>

lemma cast_le_self: "underlying_value is_signed (word_of_nat n :: 'a::len word) \<le> int n"
proof (cases is_signed)
  case True
  have "(0::int) \<le> 2 ^ (LENGTH('a) - Suc 0)" by simp
  then have "- (2 ^ (LENGTH('a) - Suc 0)) \<le> int n" by linarith
  then have "signed_take_bit (LENGTH('a) - Suc 0) (int n) \<le> int n"
    by (simp only: signed_take_bit_int_less_eq_self_iff)
  then show ?thesis using True by (simp add: underlying_value_def signed_of_nat)
next
  case False
  have "take_bit LENGTH('a) n \<le> n" by simp
  then show ?thesis using False by (simp add: underlying_value_def unsigned_of_nat)
qed

lemma cast_representable:
  assumes "representable is_signed TYPE('a::len) n"
  shows "underlying_value is_signed (word_of_nat n :: 'a word) = int n"
proof (cases is_signed)
  case True
  with assms have "n < 2 ^ (LENGTH('a) - Suc 0)" by (simp add: representable_def)
  then have "int n < 2 ^ (LENGTH('a) - Suc 0)" by (metis of_nat_less_iff of_nat_numeral of_nat_power)
  moreover have "(0::int) \<le> 2 ^ (LENGTH('a) - Suc 0)" by simp
  then have "- (2 ^ (LENGTH('a) - Suc 0)) \<le> int n" by linarith
  ultimately have "signed_take_bit (LENGTH('a) - Suc 0) (int n) = int n"
    by (intro signed_take_bit_int_eq_self)
  then show ?thesis using True by (simp add: underlying_value_def signed_of_nat)
next
  case False
  with assms have "n < 2 ^ LENGTH('a)" by (simp add: representable_def)
  then have "take_bit LENGTH('a) n = n" by (rule take_bit_nat_eq_self)
  then show ?thesis using False by (simp add: underlying_value_def unsigned_of_nat)
qed

subsection \<open>The scanning loop\<close>

text \<open>
  The loop stops at the first index at or after its start that holds \<open>s\<close>, or at the end
  of the sequence.
\<close>

lemma scan_step: "n < length xs \<Longrightarrow> xs ! n \<noteq> s \<Longrightarrow> scan xs s n = scan xs s (Suc n)"
  by (subst scan.simps) simp

lemma scan_stop: "\<not> (n < length xs \<and> xs ! n \<noteq> s) \<Longrightarrow> scan xs s n = n"
  by (subst scan.simps) auto

lemma scan_upper: "n \<le> length xs \<Longrightarrow> scan xs s n \<le> length xs"
proof (induction xs s n rule: scan.induct)
  case (1 xs s n)
  show ?case
  proof (cases "n < length xs \<and> xs ! n \<noteq> s")
    case True
    then have "scan xs s (Suc n) \<le> length xs" using 1 by simp
    then show ?thesis using True by (simp add: scan_step)
  next
    case False
    then have "scan xs s n = n" by (rule scan_stop)
    then show ?thesis using 1(2) by simp
  qed
qed

lemma scan_hit: "scan xs s n < length xs \<Longrightarrow> xs ! scan xs s n = s"
proof (induction xs s n rule: scan.induct)
  case (1 xs s n)
  show ?case
  proof (cases "n < length xs \<and> xs ! n \<noteq> s")
    case True
    then have eq: "scan xs s n = scan xs s (Suc n)" by (simp add: scan_step)
    with 1 True show ?thesis by simp
  next
    case False
    then have eq: "scan xs s n = n" by (rule scan_stop)
    with 1(2) False show ?thesis by simp
  qed
qed

lemma scan_first: "n \<le> m \<Longrightarrow> m < scan xs s n \<Longrightarrow> xs ! m \<noteq> s"
proof (induction xs s n rule: scan.induct)
  case (1 xs s n)
  show ?case
  proof (cases "n < length xs \<and> xs ! n \<noteq> s")
    case True
    then have eq: "scan xs s n = scan xs s (Suc n)" by (simp add: scan_step)
    show ?thesis
    proof (cases "m = n")
      case True
      with \<open>n < length xs \<and> xs ! n \<noteq> s\<close> show ?thesis by simp
    next
      case False
      with 1(2) have "Suc n \<le> m" by simp
      with 1(1) True 1(3) eq show ?thesis by simp
    qed
  next
    case False
    then have eq: "scan xs s n = n" by (rule scan_stop)
    with 1(2,3) show ?thesis by simp
  qed
qed

lemma scan_member: "s \<in> set xs \<Longrightarrow> scan xs s 0 < length xs"
proof (rule ccontr)
  assume mem: "s \<in> set xs" and "\<not> scan xs s 0 < length xs"
  with scan_upper [of 0 xs s] have full: "scan xs s 0 = length xs" by simp
  from mem obtain m where "m < length xs" "xs ! m = s" by (auto simp: in_set_conv_nth)
  with scan_first [of 0 m xs s] full show False by simp
qed

lemma scan_not_member: "s \<notin> set xs \<Longrightarrow> scan xs s 0 = length xs"
proof (rule ccontr)
  assume nomem: "s \<notin> set xs" and "scan xs s 0 \<noteq> length xs"
  with scan_upper [of 0 xs s] have "scan xs s 0 < length xs" by simp
  then have "xs ! scan xs s 0 = s" "scan xs s 0 < length xs" by (simp_all add: scan_hit)
  with nomem show False by (metis nth_mem)
qed

lemma scan_least:
  assumes "m < length xs" "xs ! m = s" "\<forall>j<m. xs ! j \<noteq> s"
  shows "scan xs s 0 = m"
proof -
  have "\<not> m < scan xs s 0" using scan_first [of 0 m xs s] assms(2) by auto
  then have le: "scan xs s 0 \<le> m" by simp
  then have "scan xs s 0 < length xs" using assms(1) by simp
  then have "xs ! scan xs s 0 = s" by (rule scan_hit)
  with assms(3) have "\<not> scan xs s 0 < m" by auto
  with le show ?thesis by simp
qed

lemma scan_distinct: "distinct xs \<Longrightarrow> i < length xs \<Longrightarrow> scan xs (xs ! i) 0 = i"
  by (rule scan_least) (auto simp: nth_eq_iff_index_eq)

subsection \<open>Example tables, the static, and the range test\<close>

lemma length_names_upto: "length (names_upto k) = k"
  by (simp add: names_upto_def)

lemma nth_names_upto: "i < k \<Longrightarrow> names_upto k ! i = replicate (Suc i) (CHR ''n'')"
  by (simp add: names_upto_def)

lemma distinct_names_upto: "distinct (names_upto k)"
proof -
  have "inj_on (\<lambda>i. replicate (Suc i) (CHR ''n'')) (set [0..<k])"
  proof (rule inj_onI)
    fix x y
    assume "replicate (Suc x) (CHR ''n'') = replicate (Suc y) (CHR ''n'')"
    then have "length (replicate (Suc x) (CHR ''n'')) = length (replicate (Suc y) (CHR ''n''))"
      by (rule arg_cong)
    then show "x = y" by simp
  qed
  then show ?thesis by (simp add: names_upto_def distinct_map)
qed

lemma empty_not_in_names_upto: "[] \<notin> set (names_upto k)"
  by (auto simp: names_upto_def)

lemma get_enum_strings_built:
  "ss = None \<or> ss = Some va_args \<Longrightarrow> get_enum_strings va_args ss = (va_args, Some va_args)"
  by (auto simp: get_enum_strings_def)

lemma to_string_built:
  assumes "ss = None \<or> ss = Some va_args"
  shows "to_string is_signed va_args (e :: 'a::len word) ss =
     (if underlying_value is_signed e \<ge> underlying_value is_signed (word_of_nat (length va_args) :: 'a word)
      then Inl (invalid_argument
             (''Invalid value '' @ std_to_string (underlying_value is_signed e) @ ''. ''
              @ ''Valid range is 0..'' @ std_to_string ((int (length va_args) - 1) mod 2 ^ 64)))
      else subscript va_args (underlying_value is_signed e), Some va_args)"
  using get_enum_strings_built [OF assms] by (simp add: to_string_def Let_def)

lemma from_string_built:
  assumes "ss = None \<or> ss = Some va_args"
  shows "from_string va_args s ss =
     (if scan va_args s 0 = length va_args
      then Inl (invalid_argument
             ([CHR 0x27] @ s @ CHR 0x27 # '' is not a valid string representation of this type''))
      else Inr (word_of_nat (scan va_args s 0)), Some va_args)"
  using get_enum_strings_built [OF assms] by (simp add: from_string_def Let_def)

lemma word_of_underlying_value:
  "0 \<le> underlying_value is_signed e \<Longrightarrow> word_of_nat (nat (underlying_value is_signed e)) = e"
  by (cases is_signed) (simp_all add: underlying_value_def word_of_int_nat [symmetric])

lemma enum_to_string_in_range_aux:
  assumes "0 \<le> underlying_value is_signed e"
      and "underlying_value is_signed e < int (length string_list)"
      and "representable is_signed TYPE('a::len) (length string_list)"
  shows "enum_to_string is_signed string_list (e :: 'a word) = Inr (string_list ! nat (underlying_value is_signed e))"
  using assms by (simp add: enum_to_string_def Let_def cast_representable subscript_def)

lemma to_string_in_range_aux:
  assumes "0 \<le> underlying_value is_signed e"
      and "underlying_value is_signed e < int (length va_args)"
      and "representable is_signed TYPE('a::len) (length va_args)"
      and "ss = None \<or> ss = Some va_args"
  shows "to_string is_signed va_args (e :: 'a word) ss = (Inr (va_args ! nat (underlying_value is_signed e)), Some va_args)"
  using assms(1-3) by (simp add: to_string_built [OF assms(4)] cast_representable subscript_def)

lemma out_of_range_fails_test:
  assumes "int (length string_list) \<le> underlying_value is_signed e"
  shows "underlying_value is_signed (e :: 'a::len word) \<ge> underlying_value is_signed (word_of_nat (length string_list) :: 'a word)"
  using assms cast_le_self [of is_signed "length string_list", where 'a='a] by linarith

subsection \<open>Strings that are no name\<close>

lemma enum_from_string_not_member: "s \<notin> set string_list \<Longrightarrow> enum_from_string string_list s = 0"
  by (simp add: enum_from_string_def Let_def scan_not_member)

lemma from_string_not_member:
  assumes "s \<notin> set va_args" and "ss = None \<or> ss = Some va_args"
  shows "from_string va_args s ss =
     (Inl (invalid_argument
        ([CHR 0x27] @ s @ CHR 0x27 # '' is not a valid string representation of this type'')),
      Some va_args)"
  using assms(1) by (simp add: from_string_built [OF assms(2)] scan_not_member)

text \<open>
  Claim C2 (unknown-name rejection): for a string \<open>s\<close> that is no entry of the table,
  \<open>from_string<E>(s)\<close> fails with an invalid-argument error that carries \<open>s\<close>, and
  never returns a default enumerator. \<open>from_string\<close> of \<open>part_000\<close> does so
  (\<open>from_string_not_member\<close>). \<open>enum_from_string\<close> of \<open>enum.h\<close>, under its
  comment \<open>todo: error handling\<close>, returns \<open>E{}\<close> instead: for the table
  \<open>sa, sb\<close> of \<open>StrongEnum\<close> and the string \<open>sx\<close> the result is the
  enumerator of value 0, \<open>StrongEnum::A\<close>.
\<close>

theorem enum_from_string_unknown_name_is_default:
  "enum_from_string [''sa'', ''sb''] ''sx'' = (0 :: 16 word)"
  by (simp add: enum_from_string_not_member)

subsection \<open>Values outside the table\<close>

lemma enum_to_string_beyond_table:
  assumes "int (length string_list) \<le> underlying_value is_signed e"
  shows "enum_to_string is_signed string_list e = Inr []"
  using out_of_range_fails_test [OF assms] by (simp add: enum_to_string_def Let_def)

lemma to_string_beyond_table:
  assumes "int (length va_args) \<le> underlying_value is_signed e"
      and "ss = None \<or> ss = Some va_args"
  shows "to_string is_signed va_args e ss =
     (Inl (invalid_argument
        (''Invalid value '' @ std_to_string (underlying_value is_signed e) @ ''. ''
         @ ''Valid range is 0..'' @ std_to_string ((int (length va_args) - 1) mod 2 ^ 64))),
      Some va_args)"
  using out_of_range_fails_test [OF assms(1)] by (simp add: to_string_built [OF assms(2)])

lemma enum_to_string_negative:
  assumes "underlying_value is_signed e < 0"
      and "representable is_signed TYPE('a::len) (length string_list)"
  shows "enum_to_string is_signed string_list (e :: 'a word) = Inl undefined_behaviour"
  using assms by (simp add: enum_to_string_def Let_def cast_representable subscript_def)

lemma to_string_negative:
  assumes "underlying_value is_signed e < 0"
      and "representable is_signed TYPE('a::len) (length va_args)"
      and "ss = None \<or> ss = Some va_args"
  shows "to_string is_signed va_args (e :: 'a word) ss = (Inl undefined_behaviour, Some va_args)"
  using assms(1,2) by (simp add: to_string_built [OF assms(3)] cast_representable subscript_def)

lemma digits_small: "n < 10 \<Longrightarrow> digits n = [digit n]"
  by (simp add: digits.simps)

text \<open>
  Claim C3 (out-of-range rejection): for a value whose underlying integer is outside
  \<open>[0, table.length)\<close>, \<open>to_string(e)\<close> fails with an invalid-argument error that
  carries the index and the valid range. \<open>to_string\<close> of \<open>part_000\<close> does so for
  values at or beyond the length (\<open>to_string_beyond_table\<close>). \<open>enum_to_string\<close> of
  \<open>enum.h\<close> returns the empty string there (\<open>enum_to_string_beyond_table\<close>): for
  the table \<open>wa, wb\<close> of \<open>WeakEnum\<close> and the value 2 of \<open>END\<close> the result is
  \<open>""\<close>. Below the range neither header tests anything: for the value \<open>-1\<close> of a
  signed type both index the table at \<open>-1\<close>.
\<close>

theorem enum_to_string_out_of_range_is_empty:
  "enum_to_string False [''wa'', ''wb''] (2 :: 32 word) = Inr []
   \<and> enum_to_string True [''sa'', ''sb''] (- 1 :: 16 word) = Inl undefined_behaviour
   \<and> fst (to_string True [''sa'', ''sb''] (- 1 :: 16 word) None) = Inl undefined_behaviour"
  by (simp add: enum_to_string_def to_string_def get_enum_strings_def underlying_value_def subscript_def)

text \<open>The messages of \<open>part_000\<close> for the same value, and for an empty table.\<close>

lemma to_string_scenario_1:
  "fst (to_string False [''wa'', ''wb''] (2 :: 32 word) None)
   = Inl (invalid_argument ''Invalid value 2. Valid range is 0..1'')"
  by (simp add: to_string_def get_enum_strings_def underlying_value_def std_to_string_def digits_small digit_def)

lemma to_string_empty_table:
  "fst (to_string False [] (0 :: 32 word) None)
   = Inl (invalid_argument ''Invalid value 0. Valid range is 0..18446744073709551615'')"
  by (simp add: to_string_def get_enum_strings_def underlying_value_def std_to_string_def digits.simps digit_def)

subsection \<open>Values inside the table\<close>

text \<open>
  Where the length of the table is a value of the underlying type, both headers return
  \<open>table[i]\<close> for every value with \<open>0 \<le> i < table.length\<close>.
\<close>

lemma to_string_in_range_representable:
  assumes "0 \<le> underlying_value is_signed e"
      and "underlying_value is_signed e < int (length string_list)"
      and "representable is_signed TYPE('a::len) (length string_list)"
      and "ss = None \<or> ss = Some string_list"
  shows "enum_to_string is_signed string_list (e :: 'a word)
           = Inr (string_list ! nat (underlying_value is_signed e))
         \<and> fst (to_string is_signed string_list e ss)
           = Inr (string_list ! nat (underlying_value is_signed e))"
  using assms by (simp add: enum_to_string_in_range_aux to_string_in_range_aux)

text \<open>
  Claim C5 (lookup of \<open>to_string\<close>): for a value whose underlying integer \<open>i\<close> satisfies
  \<open>0 \<le> i < table.length\<close>, \<open>to_string(e)\<close> returns \<open>table[i]\<close>. Both headers compare
  \<open>i\<close> with the length cast to the underlying type (\<open>enum.h\<close> line 96, \<open>part_000\<close>
  line 67). An enumeration over \<open>uint8_t\<close> with the 256 enumerators \<open>0 .. 255\<close> and one
  name for each has a table of length 256, which casts to 0: for the enumerator of value 1,
  inside the table, \<open>enum.h\<close> returns the empty string and \<open>part_000\<close> throws, where
  \<open>table[1]\<close> is the name \<open>nn\<close>.
\<close>

theorem to_string_full_range_fails:
  "distinct (names_upto 256)
   \<and> 0 \<le> underlying_value False (1 :: 8 word)
   \<and> underlying_value False (1 :: 8 word) < int (length (names_upto 256))
   \<and> names_upto 256 ! 1 = ''nn''
   \<and> enum_to_string False (names_upto 256) (1 :: 8 word) = Inr []
   \<and> fst (to_string False (names_upto 256) (1 :: 8 word) None)
       = Inl (invalid_argument ''Invalid value 1. Valid range is 0..255'')"
proof -
  have "names_upto 256 ! 1 = ''nn''"
    by (simp add: nth_names_upto numeral_2_eq_2)
  moreover have "enum_to_string False (names_upto 256) (1 :: 8 word) = Inr []"
    by (simp add: enum_to_string_def underlying_value_def length_names_upto)
  moreover have "fst (to_string False (names_upto 256) (1 :: 8 word) None)
       = Inl (invalid_argument ''Invalid value 1. Valid range is 0..255'')"
    by (simp add: to_string_def get_enum_strings_def underlying_value_def length_names_upto
          std_to_string_def digits.simps digit_def)
  ultimately show ?thesis
    by (simp add: distinct_names_upto length_names_upto underlying_value_def)
qed

subsection \<open>Strings that are a name\<close>

text \<open>What both headers return for a name: the first index that holds it, cast to \<open>E\<close>.\<close>

lemma enum_from_string_first_index:
  assumes "n < length string_list" and "string_list ! n = s" and "\<forall>j<n. string_list ! j \<noteq> s"
  shows "enum_from_string string_list s = word_of_nat n"
  using assms(1) by (simp add: enum_from_string_def Let_def scan_least [OF assms])

lemma from_string_first_index:
  assumes "n < length va_args" and "va_args ! n = s" and "\<forall>j<n. va_args ! j \<noteq> s"
      and "ss = None \<or> ss = Some va_args"
  shows "from_string va_args s ss = (Inr (word_of_nat n), Some va_args)"
  using assms(1) by (simp add: from_string_built [OF assms(4)] scan_least [OF assms(1-3)])

text \<open>
  Claim C4 (lookup of \<open>from_string\<close>): for a string \<open>s\<close> of the table,
  \<open>from_string<E>(s)\<close> returns the enumerator whose integer value is the smallest index
  \<open>n\<close> with \<open>table[n] == s\<close>. Both headers return \<open>static_cast<E>(n)\<close>, whose integer
  value is \<open>n\<close> where \<open>n\<close> is a value of the underlying type.
\<close>

theorem from_string_first_match:
  assumes "n < length string_list" and "string_list ! n = s" and "\<forall>j<n. string_list ! j \<noteq> s"
      and "representable is_signed TYPE('a::len) n"
      and "ss = None \<or> ss = Some string_list"
  shows "underlying_value is_signed (enum_from_string string_list s :: 'a word) = int n
         \<and> (\<exists>e :: 'a word. fst (from_string string_list s ss) = Inr e
               \<and> underlying_value is_signed e = int n)"
  using assms(4)
  by (simp add: enum_from_string_first_index [OF assms(1-3)]
        from_string_first_index [OF assms(1-3,5)] cast_representable)

theorem from_string_first_match_witness:
  "underlying_value True (enum_from_string [''sa'', ''sb'', ''sb''] ''sb'' :: 16 word) = 1
   \<and> (\<exists>e :: 16 word. fst (from_string [''sa'', ''sb'', ''sb''] ''sb'' None) = Inr e
         \<and> underlying_value True e = 1)"
  using from_string_first_match [of 1 "[''sa'', ''sb'', ''sb'']" "''sb''" True None, where 'a = 16]
  by (simp add: representable_def)

text \<open>
  With 257 distinct names for an enumeration over \<open>uint8_t\<close>, the last name sits at index
  256 and the result is the enumerator of value 0.
\<close>

theorem from_string_first_match_counterexample:
  "distinct (names_upto 257)
   \<and> 256 < length (names_upto 257)
   \<and> underlying_value False (enum_from_string (names_upto 257) (names_upto 257 ! 256) :: 8 word) \<noteq> 256
   \<and> fst (from_string (names_upto 257) (names_upto 257 ! 256) None) = Inr (0 :: 8 word)"
proof -
  have first: "scan (names_upto 257) (names_upto 257 ! 256) 0 = 256"
    by (rule scan_distinct) (simp_all add: distinct_names_upto length_names_upto)
  have "enum_from_string (names_upto 257) (names_upto 257 ! 256) = (0 :: 8 word)"
    by (simp add: enum_from_string_def Let_def first length_names_upto)
  moreover have "fst (from_string (names_upto 257) (names_upto 257 ! 256) None) = Inr (0 :: 8 word)"
    by (simp add: from_string_def get_enum_strings_def Let_def first length_names_upto)
  ultimately show ?thesis
    by (simp add: distinct_names_upto length_names_upto underlying_value_def)
qed

subsection \<open>Round trip\<close>

text \<open>
  Where the table has pairwise distinct names and its length is a value of the underlying
  type, converting an enumerator to its name and back gives the enumerator, in both
  headers.
\<close>

lemma enum_round_trip_representable:
  assumes "distinct string_list"
      and "0 \<le> underlying_value is_signed e"
      and "underlying_value is_signed e < int (length string_list)"
      and "representable is_signed TYPE('a::len) (length string_list)"
  shows "enum_round_trip is_signed string_list (e :: 'a word) = Inr e"
proof -
  let ?i = "nat (underlying_value is_signed e)"
  have i: "?i < length string_list" using assms(2,3) by simp
  have "scan string_list (string_list ! ?i) 0 = ?i"
    using assms(1) i by (rule scan_distinct)
  then have "enum_from_string string_list (string_list ! ?i) = (word_of_nat ?i :: 'a word)"
    using i by (simp add: enum_from_string_def Let_def)
  then show ?thesis
    by (simp add: enum_round_trip_def enum_to_string_in_range_aux [OF assms(2-4)]
          word_of_underlying_value [OF assms(2)])
qed

lemma round_trip_representable:
  assumes "distinct va_args"
      and "0 \<le> underlying_value is_signed e"
      and "underlying_value is_signed e < int (length va_args)"
      and "representable is_signed TYPE('a::len) (length va_args)"
      and "ss = None \<or> ss = Some va_args"
  shows "round_trip is_signed va_args (e :: 'a word) ss = (Inr e, Some va_args)"
proof -
  let ?i = "nat (underlying_value is_signed e)"
  have i: "?i < length va_args" using assms(2,3) by simp
  have first: "scan va_args (va_args ! ?i) 0 = ?i"
    using assms(1) i by (rule scan_distinct)
  have "from_string va_args (va_args ! ?i) (Some va_args) = (Inr (word_of_nat ?i :: 'a word), Some va_args)"
    using i by (simp add: from_string_built first)
  then show ?thesis
    by (simp add: round_trip_def to_string_in_range_aux [OF assms(2-5)]
          word_of_underlying_value [OF assms(2)])
qed

text \<open>
  Claim C1 (round trip): for an enumeration with one name per enumerator, ordinals
  \<open>0 .. k-1\<close>, pairwise distinct names, and an enumerator \<open>e\<close> with ordinal in
  \<open>[0, k)\<close>, \<open>from_string<E>(to_string(e)) == e\<close>. An enumeration over \<open>int8_t\<close> with
  the 128 enumerators \<open>0 .. 127\<close> and 128 distinct names meets the conditions, but the
  length 128 casts to \<open>-128\<close> and every value passes for out of range: for the enumerator
  of value 1, \<open>enum.h\<close> converts to the empty string and back to the enumerator of value
  0, and \<open>part_000\<close> throws.
\<close>

theorem round_trip_full_range_fails:
  "distinct (names_upto 128)
   \<and> length (names_upto 128) = 128
   \<and> underlying_value True (1 :: 8 word) = 1
   \<and> enum_to_string True (names_upto 128) (1 :: 8 word) = Inr []
   \<and> enum_round_trip True (names_upto 128) (1 :: 8 word) = Inr 0
   \<and> fst (round_trip True (names_upto 128) (1 :: 8 word) None)
       = Inl (invalid_argument ''Invalid value 1. Valid range is 0..127'')"
proof -
  have to: "enum_to_string True (names_upto 128) (1 :: 8 word) = Inr []"
    by (simp add: enum_to_string_def underlying_value_def length_names_upto)
  have "enum_from_string (names_upto 128) [] = (0 :: 8 word)"
    by (rule enum_from_string_not_member) (rule empty_not_in_names_upto)
  then have rt: "enum_round_trip True (names_upto 128) (1 :: 8 word) = Inr 0"
    by (simp add: enum_round_trip_def to)
  have "to_string True (names_upto 128) (1 :: 8 word) None
        = (Inl (invalid_argument ''Invalid value 1. Valid range is 0..127''), Some (names_upto 128))"
    by (simp add: to_string_def get_enum_strings_def underlying_value_def length_names_upto
          std_to_string_def digits.simps digit_def)
  then have "fst (round_trip True (names_upto 128) (1 :: 8 word) None)
        = Inl (invalid_argument ''Invalid value 1. Valid range is 0..127'')"
    by (simp add: round_trip_def)
  with to rt show ?thesis
    by (simp add: distinct_names_upto length_names_upto underlying_value_def)
qed

subsection \<open>The two headers side by side\<close>

text \<open>
  On every input the two headers take the same branch. Either both return the same
  string, or \<open>enum.h\<close> returns the empty string where \<open>part_000\<close> throws, or both read
  outside the table; in the last case nothing is determined about either result.
\<close>

lemma to_string_same_branch:
  assumes "ss = None \<or> ss = Some names"
  shows "(\<exists>str. enum_to_string is_signed names e = Inr str
            \<and> fst (to_string is_signed names e ss) = Inr str)
         \<or> (enum_to_string is_signed names e = Inr []
             \<and> (\<exists>m. fst (to_string is_signed names e ss) = Inl (invalid_argument m)))
         \<or> (enum_to_string is_signed names e = Inl undefined_behaviour
             \<and> fst (to_string is_signed names e ss) = Inl undefined_behaviour)"
  by (simp add: to_string_built [OF assms] enum_to_string_def Let_def subscript_def)

text \<open>
  For a string, both return the same enumerator, or \<open>enum.h\<close> returns \<open>E{}\<close> where
  \<open>part_000\<close> throws.
\<close>

lemma from_string_agrees_or_throws:
  assumes "ss = None \<or> ss = Some names"
  shows "fst (from_string names s ss) = Inr (enum_from_string names s)
         \<or> (enum_from_string names s = 0
             \<and> (\<exists>m. fst (from_string names s ss) = Inl (invalid_argument m)))"
  by (simp add: from_string_built [OF assms] enum_from_string_def Let_def)

text \<open>
  For every string of the list both \<open>from_string\<close>s return the same enumerator; for
  every value inside the table both \<open>to_string\<close>s return the same string where the
  number of names is a value of the underlying type.
\<close>

lemma from_string_agrees_on_names:
  assumes "s \<in> set names" and "ss = None \<or> ss = Some names"
  shows "fst (from_string names s ss) = Inr (enum_from_string names s)"
proof -
  from assms(1) have "scan names s 0 \<noteq> length names" using scan_member [of s names] by simp
  then show ?thesis
    by (simp add: from_string_built [OF assms(2)] enum_from_string_def Let_def)
qed

lemma to_string_agrees_representable:
  assumes "0 \<le> underlying_value is_signed e"
      and "underlying_value is_signed e < int (length names)"
      and "representable is_signed TYPE('a::len) (length names)"
      and "ss = None \<or> ss = Some names"
  shows "\<exists>str. enum_to_string is_signed names (e :: 'a word) = Inr str
               \<and> fst (to_string is_signed names e ss) = Inr str"
  using assms by (simp add: enum_to_string_in_range_aux to_string_in_range_aux)

text \<open>
  Claim C10 (agreement of the two headers on valid inputs): with the same list of names,
  (a) for a value inside \<open>[0, number of names)\<close> both \<open>to_string\<close>s return the same
  string, and (b) for a string of the list both \<open>from_string\<close>s return the same
  enumerator. (b) holds (\<open>from_string_agrees_on_names\<close>). For (a), take an enumeration
  over \<open>int8_t\<close> with the 128 enumerators \<open>0 .. 127\<close> and one name for each: the number
  of names casts to \<open>-128\<close>, and for the last enumerator, of value 127, \<open>enum.h\<close>
  returns the empty string where \<open>part_000\<close> throws, naming 127 as invalid in the range
  \<open>0..127\<close>.
\<close>

theorem headers_differ_on_full_range:
  "distinct (names_upto 128)
   \<and> 0 \<le> underlying_value True (127 :: 8 word)
   \<and> underlying_value True (127 :: 8 word) < int (length (names_upto 128))
   \<and> enum_to_string True (names_upto 128) (127 :: 8 word) = Inr []
   \<and> fst (to_string True (names_upto 128) (127 :: 8 word) None)
       = Inl (invalid_argument ''Invalid value 127. Valid range is 0..127'')"
proof -
  have "enum_to_string True (names_upto 128) (127 :: 8 word) = Inr []"
    by (simp add: enum_to_string_def underlying_value_def length_names_upto)
  moreover have "fst (to_string True (names_upto 128) (127 :: 8 word) None)
       = Inl (invalid_argument ''Invalid value 127. Valid range is 0..127'')"
    by (simp add: to_string_def get_enum_strings_def underlying_value_def length_names_upto
          std_to_string_def digits.simps digit_def)
  ultimately show ?thesis
    by (simp add: distinct_names_upto length_names_upto underlying_value_def)
qed

subsection \<open>Types without an association\<close>

lemma EnumMetaInfo_Info_empty: "length EnumMetaInfo_Info = 0"
  by (simp add: EnumMetaInfo_Info_def)

lemma enum_to_string_without_association:
  "0 \<le> underlying_value is_signed e \<Longrightarrow> enum_to_string is_signed EnumMetaInfo_Info e = Inr []"
  by (rule enum_to_string_beyond_table) (simp add: EnumMetaInfo_Info_def)

lemma enum_from_string_without_association:
  "enum_from_string EnumMetaInfo_Info s = 0"
  by (rule enum_from_string_not_member) (simp add: EnumMetaInfo_Info_def)

text \<open>
  Claim C6 (default table): for a type without an association the table is empty, so that
  every \<open>to_string\<close> call takes the out-of-range path and every \<open>from_string\<close> call the
  not-found path. The table is empty (\<open>EnumMetaInfo_Info_empty\<close>), every
  \<open>enum_from_string\<close> call returns \<open>E{}\<close> (\<open>enum_from_string_without_association\<close>),
  and \<open>enum_to_string\<close> takes its out-of-range path for every value that is not negative
  (\<open>enum_to_string_without_association\<close>). A negative value of a signed underlying type
  is not at least \<open>static_cast<base_type>(0)\<close>: the call indexes the empty array.
\<close>

theorem enum_to_string_without_association_negative:
  "enum_to_string True EnumMetaInfo_Info (- 1 :: 32 word) = Inl undefined_behaviour"
  by (simp add: enum_to_string_def EnumMetaInfo_Info_def underlying_value_def subscript_def)

subsection \<open>Repeated calls\<close>

text \<open>
  \<open>enum_to_string\<close> reads no state. \<open>to_string\<close> of \<open>part_000\<close> reads the static: its
  result does not depend on whether the static was built before, and a second call
  returns what the first returned.
\<close>

lemma to_string_independent_of_static:
  assumes "ss = None \<or> ss = Some names"
  shows "to_string is_signed names e ss = (fst (to_string is_signed names e None), Some names)"
  by (simp add: to_string_built [OF assms] to_string_built [of None])

lemma to_string_repeated:
  assumes "ss = None \<or> ss = Some names"
  shows "to_string is_signed names e (snd (to_string is_signed names e ss))
         = to_string is_signed names e ss"
  by (simp add: to_string_built [OF assms] to_string_built [of "Some names"])

text \<open>
  Claim C9 (determinism of \<open>to_string\<close>): for every value \<open>e\<close>, two calls return the same
  string or the same failure, a result that depends on \<open>e\<close> and the table only. That is
  so wherever the call has a result (\<open>to_string_independent_of_static\<close>,
  \<open>to_string_repeated\<close>). For a negative value of a signed underlying type the call has
  none: with the table \<open>fa, fb\<close> of \<open>NestedEnum\<close> and the value \<open>-1\<close>, both headers read
  \<open>strings[-1]\<close>, outside the table, before and after the static is built.
\<close>

theorem to_string_negative_has_no_result:
  "enum_to_string True [''fa'', ''fb''] (- 1 :: 32 word) = Inl undefined_behaviour
   \<and> to_string True [''fa'', ''fb''] (- 1 :: 32 word) None
       = (Inl undefined_behaviour, Some [''fa'', ''fb''])
   \<and> to_string True [''fa'', ''fb''] (- 1 :: 32 word) (Some [''fa'', ''fb''])
       = (Inl undefined_behaviour, Some [''fa'', ''fb''])"
  by (simp add: enum_to_string_def to_string_def get_enum_strings_def underlying_value_def subscript_def)

subsection \<open>Building a table\<close>

lemma to_array_impl_all_indices: "to_array_impl a (make_index_sequence (length a)) = a"
  by (simp add: to_array_impl_def make_index_sequence_def map_nth)

lemma ENUM_STRINGS_Info_names: "va_args \<noteq> [] \<Longrightarrow> ENUM_STRINGS_Info va_args = Some va_args"
  by (simp add: ENUM_STRINGS_Info_def to_array_def to_array_impl_all_indices)

text \<open>
  Claim C8 (table builder): for a list of \<open>N\<close> strings \<open>to_array\<close> produces a sequence
  of exactly \<open>N\<close> elements whose \<open>i\<close>-th element is the \<open>i\<close>-th string, and the empty
  list yields a zero-length table. The first part holds for every list that
  \<open>to_array\<close> accepts, the lists of at least one string.
\<close>

theorem to_array_preserves:
  assumes "a \<noteq> []"
  shows "\<exists>t. to_array a = Some t \<and> length t = length a \<and> (\<forall>i<length a. t ! i = a ! i)"
  using assms by (simp add: to_array_def to_array_impl_all_indices)

theorem to_array_preserves_witness:
  "\<exists>t. to_array [''wa'', ''wb''] = Some t \<and> length t = length [''wa'', ''wb'']
        \<and> (\<forall>i<length [''wa'', ''wb'']. t ! i = [''wa'', ''wb''] ! i)"
  using to_array_preserves [of "[''wa'', ''wb'']"] by simp

text \<open>The empty list is no argument of \<open>to_array\<close>, and yields no table.\<close>

theorem to_array_preserves_counterexample:
  "to_array ([] :: string list) \<noteq> Some [] \<and> ENUM_STRINGS_Info [] = None"
  by (simp add: to_array_def ENUM_STRINGS_Info_def)

subsection \<open>Extraction from a source without a token\<close>





subsection \<open>The assertions of the example program\<close>

text \<open>
  \<open>src/main.cpp\<close> asserts \<open>enum_to_string(e) == s\<close> and \<open>enum_from_string<E>(s) == e\<close>
  for both enumerators of \<open>N1::WeakEnum\<close> (names \<open>wa, wb\<close>), of \<open>N2::StrongEnum\<close> over
  \<open>int16_t\<close> (names \<open>sa, sb\<close>) and of \<open>N3::Foo::NestedEnum\<close> (names \<open>fa, fb\<close>).
\<close>

lemma main_assertions:
  "enum_to_string False [''wa'', ''wb''] (0 :: 32 word) = Inr ''wa''"
  "enum_from_string [''wa'', ''wb''] ''wa'' = (0 :: 32 word)"
  "enum_to_string False [''wa'', ''wb''] (1 :: 32 word) = Inr ''wb''"
  "enum_from_string [''wa'', ''wb''] ''wb'' = (1 :: 32 word)"
  "enum_to_string True [''sa'', ''sb''] (0 :: 16 word) = Inr ''sa''"
  "enum_from_string [''sa'', ''sb''] ''sa'' = (0 :: 16 word)"
  "enum_to_string True [''sa'', ''sb''] (1 :: 16 word) = Inr ''sb''"
  "enum_from_string [''sa'', ''sb''] ''sb'' = (1 :: 16 word)"
  "enum_to_string True [''fa'', ''fb''] (0 :: 32 word) = Inr ''fa''"
  "enum_from_string [''fa'', ''fb''] ''fa'' = (0 :: 32 word)"
  "enum_to_string True [''fa'', ''fb''] (1 :: 32 word) = Inr ''fb''"
  "enum_from_string [''fa'', ''fb''] ''fb'' = (1 :: 32 word)"
  by (simp_all add: enum_to_string_def enum_from_string_def underlying_value_def subscript_def
        scan.simps)

end
